theory Spec2Isabelle
  imports Complex_Main "HOL-Library.Sublist" "HOL-Library.Multiset"
begin

section \<open>JavaScript strings\<close>

text \<open>
  A JavaScript string is a sequence of UTF-16 code units; \<open>length\<close>, \<open>charCodeAt\<close>,
  \<open>split('')\<close>, \<open>substring\<close> and the regular expressions of the source (none has the
  \<open>u\<close> flag) all work on code units. A string is modelled as the list of its code units,
  each a natural number; \<open>str\<close> turns an ASCII literal into that list.
\<close>

type_synonym jstring = "nat list"

definition str :: "string \<Rightarrow> jstring" where
  "str s = map of_char s"

text \<open>\<open>s.startsWith(k)\<close> and \<open>s.includes(k)\<close>: a left-to-right search for \<open>k\<close>.\<close>

fun startsWith :: "jstring \<Rightarrow> jstring \<Rightarrow> bool" where
  "startsWith s [] = True"
| "startsWith [] (k # ks) = False"
| "startsWith (c # cs) (k # ks) = (c = k \<and> startsWith cs ks)"

fun str_includes :: "jstring \<Rightarrow> jstring \<Rightarrow> bool" where
  "str_includes [] k = (k = [])"
| "str_includes (c # cs) k = (startsWith (c # cs) k \<or> str_includes cs k)"

text \<open>
  \<open>s.toLowerCase()\<close>. The letters \<open>A\<close> to \<open>Z\<close> (65 to 90) go to \<open>a\<close> to \<open>z\<close>. Two code
  units outside ASCII have a lower case with an ASCII letter in it: U+0130 becomes \<open>i\<close>
  followed by U+0307, and U+212A (the Kelvin sign) becomes \<open>k\<close>. Every other code unit
  is mapped by the Unicode tables to code units from 128 on; the model leaves those in
  place, which changes no test for an ASCII keyword.
\<close>

definition lowerUnit :: "nat \<Rightarrow> jstring" where
  "lowerUnit c =
     (if 65 \<le> c \<and> c \<le> 90 then [c + 32]
      else if c = 304 then [105, 775]
      else if c = 8490 then [107]
      else [c])"

definition toLowerCase :: "jstring \<Rightarrow> jstring" where
  "toLowerCase s = concat (map lowerUnit s)"

section \<open>Category and severity classifier (lib/local-intelligence.ts)\<close>

datatype IncidentCategory = Crime | Accident | Boating | Fire | Advisory | Other

datatype IncidentSeverity = SevInfo | SevAdvisory | SevAlert

text \<open>
  \<open>summary\<close> is an optional parameter: \<open>None\<close> is \<open>undefined\<close>, and \<open>summary || ''\<close>
  is the empty string for \<open>undefined\<close> and for the empty string.
\<close>

definition orEmpty :: "jstring option \<Rightarrow> jstring" where
  "orEmpty summary = (case summary of None \<Rightarrow> [] | Some s \<Rightarrow> s)"

text \<open>The template literal \<open>`${type} ${title} ${summary || ''}`\<close>, before lower-casing.\<close>

definition typeText :: "jstring \<Rightarrow> jstring \<Rightarrow> jstring option \<Rightarrow> jstring" where
  "typeText ty title summary = ty @ [32] @ title @ [32] @ orEmpty summary"

definition normalizeIncidentType :: "jstring \<Rightarrow> jstring \<Rightarrow> jstring option \<Rightarrow> IncidentCategory" where
  "normalizeIncidentType ty title summary =
     (let text = toLowerCase (typeText ty title summary) in
      if str_includes text (str ''boat'') \<or> str_includes text (str ''marine'')
         \<or> str_includes text (str ''watercraft'') then Boating
      else if str_includes text (str ''fire'') \<or> str_includes text (str ''blaze'')
         \<or> str_includes text (str ''burn'') then Fire
      else if str_includes text (str ''accident'') \<or> str_includes text (str ''crash'')
         \<or> str_includes text (str ''collision'') then Accident
      else if str_includes text (str ''crime'') \<or> str_includes text (str ''arrest'')
         \<or> str_includes text (str ''theft'') \<or> str_includes text (str ''police'') then Crime
      else if str_includes text (str ''advisory'') \<or> str_includes text (str ''warning'')
         \<or> str_includes text (str ''alert'') then Advisory
      else Other)"

text \<open>The template literal \<open>`${title} ${summary || ''}`\<close>, before lower-casing.\<close>

definition severityText :: "jstring \<Rightarrow> jstring option \<Rightarrow> jstring" where
  "severityText title summary = title @ [32] @ orEmpty summary"

definition determineIncidentSeverity ::
  "IncidentCategory \<Rightarrow> jstring \<Rightarrow> jstring option \<Rightarrow> IncidentSeverity" where
  "determineIncidentSeverity ty title summary =
     (let text = toLowerCase (severityText title summary) in
      if ty = Fire \<or> (ty = Accident \<and>
           (str_includes text (str ''fatal'') \<or> str_includes text (str ''serious'')))
      then SevAlert
      else if ty = Boating \<or> ty = Crime then SevAdvisory
      else if ty = Accident \<or> ty = Advisory then SevAdvisory
      else SevInfo)"



section \<open>Content sanitizer (lib/sanitize.ts)\<close>

text \<open>
  The functions are typed \<open>string\<close> and guard against other values at run time
  (\<open>!x || typeof x !== 'string'\<close>): an argument is a string or something else.
\<close>

datatype js_arg = NotAString | Str jstring

text \<open>
  White space as \<open>trim\<close> and the class \<open>\s\<close> take it: the WhiteSpace and
  LineTerminator code units of ECMAScript.
\<close>

definition isWhiteSpace :: "nat \<Rightarrow> bool" where
  "isWhiteSpace c \<longleftrightarrow>
     (9 \<le> c \<and> c \<le> 13) \<or> c = 32 \<or> c = 160 \<or> c = 5760 \<or> (8192 \<le> c \<and> c \<le> 8202)
     \<or> c = 8232 \<or> c = 8233 \<or> c = 8239 \<or> c = 8287 \<or> c = 12288 \<or> c = 65279"

definition trimStart :: "jstring \<Rightarrow> jstring" where
  "trimStart s = dropWhile isWhiteSpace s"

definition trimEnd :: "jstring \<Rightarrow> jstring" where
  "trimEnd s = rev (dropWhile isWhiteSpace (rev s))"

definition trim :: "jstring \<Rightarrow> jstring" where
  "trim s = trimEnd (trimStart s)"

text \<open>
  \<open>html.replace(/<[^>]*>/g, '')\<close>: at a \<open><\<close> (60) the pattern matches up to the next
  \<open>>\<close> (62), whatever lies between, and the search goes on behind it; a \<open><\<close> with no
  \<open>>\<close> behind it matches nothing and stays.
\<close>

function stripTags :: "jstring \<Rightarrow> jstring" where
  "stripTags [] = []"
| "stripTags (c # cs) =
     (if c = 60 \<and> 62 \<in> set cs then stripTags (tl (dropWhile (\<lambda>x. x \<noteq> 62) cs))
      else c # stripTags cs)"
  by pat_completeness auto
termination
proof (relation "measure length")
  show "wf (measure length)" by simp
next
  fix c :: nat and cs :: jstring
  have "length (tl (dropWhile (\<lambda>x. x \<noteq> 62) cs)) \<le> length cs"
    using length_dropWhile_le [of "\<lambda>x. x \<noteq> 62" cs] by simp
  then show "(tl (dropWhile (\<lambda>x. x \<noteq> 62) cs), c # cs) \<in> measure length"
    by simp
next
  fix c :: nat and cs :: jstring
  show "(cs, c # cs) \<in> measure length" by simp
qed

text \<open>
  \<open>s.replace(new RegExp(pat, 'g'), rep)\<close> for a pattern without special characters:
  every occurrence of \<open>pat\<close>, found from left to right and not overlapping, becomes
  \<open>rep\<close>. (The patterns of the source are the six entity names, none empty.)
\<close>

fun replaceAll :: "jstring \<Rightarrow> jstring \<Rightarrow> jstring \<Rightarrow> jstring" where
  "replaceAll pat rep [] = []"
| "replaceAll pat rep (c # cs) =
     (if pat \<noteq> [] \<and> startsWith (c # cs) pat
      then rep @ replaceAll pat rep (drop (length pat - 1) cs)
      else c # replaceAll pat rep cs)"

text \<open>The entries of \<open>entityMap\<close>, in the order \<open>Object.entries\<close> lists them.\<close>

definition entityMap :: "(jstring \<times> jstring) list" where
  "entityMap =
     [(str ''&amp;'', str ''&''), (str ''&lt;'', str ''<''), (str ''&gt;'', str ''>''),
      (str ''&quot;'', [34]), (str ''&#039;'', [39]), (str ''&apos;'', [39])]"

text \<open>
  \<open>parseInt(digits, radix)\<close> on a string of digits of that radix, and
  \<open>String.fromCharCode\<close>, which keeps the low 16 bits. \<open>parseInt\<close> returns a double:
  below \<open>2^53\<close> it is the exact value, and from there on it is rounded, so that the code
  unit \<open>fromCharCode\<close> makes of it is not a function of the exact value that this model
  could compute; \<open>big\<close> stands for it.
\<close>

definition isDigit :: "nat \<Rightarrow> bool" where
  "isDigit c \<longleftrightarrow> 48 \<le> c \<and> c \<le> 57"

definition isHexDigit :: "nat \<Rightarrow> bool" where
  "isHexDigit c \<longleftrightarrow> (48 \<le> c \<and> c \<le> 57) \<or> (97 \<le> c \<and> c \<le> 102) \<or> (65 \<le> c \<and> c \<le> 70)"

definition digitValue :: "nat \<Rightarrow> nat" where
  "digitValue c =
     (if 48 \<le> c \<and> c \<le> 57 then c - 48
      else if 97 \<le> c \<and> c \<le> 102 then c - 87
      else c - 55)"

definition parseInt :: "jstring \<Rightarrow> nat \<Rightarrow> nat" where
  "parseInt ds radix = foldl (\<lambda>acc d. acc * radix + digitValue d) 0 ds"

definition fromCharCode :: "(nat \<Rightarrow> nat) \<Rightarrow> nat \<Rightarrow> nat" where
  "fromCharCode big n = (if n < 2 ^ 53 then n mod 65536 else big n)"

text \<open>
  One match of \<open>/&#(\d+);/\<close> or \<open>/&#x([0-9a-fA-F]+);/\<close> at the head of \<open>s\<close>: the prefix,
  the longest run of digits, which must not be empty, and a semicolon (59). The result
  is the run of digits and what follows the match.
\<close>

definition matchEntity :: "jstring \<Rightarrow> (nat \<Rightarrow> bool) \<Rightarrow> jstring \<Rightarrow> (jstring \<times> jstring) option" where
  "matchEntity pre digit s =
     (if startsWith s pre then
        (let body = drop (length pre) s;
             ds = takeWhile digit body;
             r = dropWhile digit body
         in if ds \<noteq> [] \<and> r \<noteq> [] \<and> hd r = 59 then Some (ds, tl r) else None)
      else None)"

lemma matchEntity_shorter:
  "matchEntity pre digit s = Some (ds, rest) \<Longrightarrow> length rest < length s"
proof -
  assume m: "matchEntity pre digit s = Some (ds, rest)"
  let ?body = "drop (length pre) s"
  from m have r: "rest = tl (dropWhile digit ?body)" and ne: "dropWhile digit ?body \<noteq> []"
    by (auto simp: matchEntity_def Let_def split: if_splits)
  have "length (dropWhile digit ?body) \<le> length ?body"
    by (rule length_dropWhile_le)
  with ne have "length (tl (dropWhile digit ?body)) < length ?body"
    by (cases "dropWhile digit ?body") auto
  with r show ?thesis by simp
qed

text \<open>
  \<open>s.replace(/&#(\d+);/g, ...)\<close> with \<open>radix = 10\<close> and \<open>pre = "&#"\<close>, and
  \<open>s.replace(/&#x([0-9a-fA-F]+);/g, ...)\<close> with \<open>radix = 16\<close> and \<open>pre = "&#x"\<close>: each
  match becomes the one code unit \<open>String.fromCharCode(parseInt(digits, radix))\<close>.
\<close>

function decodeNumeric ::
  "(nat \<Rightarrow> nat) \<Rightarrow> jstring \<Rightarrow> (nat \<Rightarrow> bool) \<Rightarrow> nat \<Rightarrow> jstring \<Rightarrow> jstring" where
  "decodeNumeric big pre digit radix [] = []"
| "decodeNumeric big pre digit radix (c # cs) =
     (case matchEntity pre digit (c # cs) of
        Some (ds, rest) \<Rightarrow>
          fromCharCode big (parseInt ds radix) # decodeNumeric big pre digit radix rest
      | None \<Rightarrow> c # decodeNumeric big pre digit radix cs)"
  by pat_completeness auto
termination
  by (relation "measure (\<lambda>(big, pre, digit, radix, s). length s)")
    (auto dest: matchEntity_shorter)

definition decodeHtmlEntities :: "(nat \<Rightarrow> nat) \<Rightarrow> jstring \<Rightarrow> jstring" where
  "decodeHtmlEntities big text =
     (let decoded = foldl (\<lambda>d (entity, ch). replaceAll entity ch d) text entityMap;
          decoded = decodeNumeric big (str ''&#'') isDigit 10 decoded;
          decoded = decodeNumeric big (str ''&#x'') isHexDigit 16 decoded
      in decoded)"

text \<open>\<open>text.replace(/[&<>"']/g, (char) => map[char])\<close>.\<close>

definition escapeChar :: "nat \<Rightarrow> jstring" where
  "escapeChar c =
     (if c = 38 then str ''&amp;''
      else if c = 60 then str ''&lt;''
      else if c = 62 then str ''&gt;''
      else if c = 34 then str ''&quot;''
      else if c = 39 then str ''&#039;''
      else [c])"

definition escapeHtml :: "jstring \<Rightarrow> jstring" where
  "escapeHtml text = concat (map escapeChar text)"

text \<open>\<open>s.replace(/\s+/g, ' ')\<close>: each maximal run of white space becomes one space.\<close>

function collapseWhitespace :: "jstring \<Rightarrow> jstring" where
  "collapseWhitespace [] = []"
| "collapseWhitespace (c # cs) =
     (if isWhiteSpace c then 32 # collapseWhitespace (dropWhile isWhiteSpace cs)
      else c # collapseWhitespace cs)"
  by pat_completeness auto
termination
proof (relation "measure length")
  show "wf (measure length)" by simp
next
  fix c :: nat and cs :: jstring
  show "(dropWhile isWhiteSpace cs, c # cs) \<in> measure length"
    using length_dropWhile_le [of isWhiteSpace cs] by simp
next
  fix c :: nat and cs :: jstring
  show "(cs, c # cs) \<in> measure length" by simp
qed

definition sanitizeHtml :: "(nat \<Rightarrow> nat) \<Rightarrow> js_arg \<Rightarrow> jstring" where
  "sanitizeHtml big html =
     (case html of
        NotAString \<Rightarrow> []
      | Str h \<Rightarrow>
          if h = [] then []
          else (let sanitized = stripTags h;
                    sanitized = decodeHtmlEntities big sanitized;
                    sanitized = escapeHtml sanitized;
                    sanitized = trim (collapseWhitespace sanitized)
                in sanitized))"

definition sanitizeText :: "js_arg \<Rightarrow> jstring" where
  "sanitizeText text =
     (case text of
        NotAString \<Rightarrow> []
      | Str t \<Rightarrow> if t = [] then [] else escapeHtml (trim t))"

text \<open>
  A match of \<open>/^(https?:\/\/|\/)/i\<close>. Without the \<open>u\<close> flag the \<open>i\<close> flag compares
  upper cases and never lets a code unit from 128 on stand for an ASCII letter, so only
  the ASCII letters of either case match \<open>http\<close> and \<open>https\<close>.
\<close>

definition upperAscii :: "nat \<Rightarrow> nat" where
  "upperAscii c = (if 97 \<le> c \<and> c \<le> 122 then c - 32 else c)"

definition startsWithIgnoreCase :: "jstring \<Rightarrow> jstring \<Rightarrow> bool" where
  "startsWithIgnoreCase s k = startsWith (map upperAscii s) (map upperAscii k)"

definition matchesUrlPattern :: "jstring \<Rightarrow> bool" where
  "matchesUrlPattern s \<longleftrightarrow>
     startsWithIgnoreCase s (str ''http://'') \<or> startsWithIgnoreCase s (str ''https://'')
     \<or> startsWith s (str ''/'')"

definition dangerousSchemes :: "jstring list" where
  "dangerousSchemes = [str ''javascript:'', str ''data:'', str ''vbscript:'', str ''file:'']"

definition sanitizeUrl :: "js_arg \<Rightarrow> jstring" where
  "sanitizeUrl url =
     (case url of
        NotAString \<Rightarrow> []
      | Str u \<Rightarrow>
          if u = [] then []
          else (let trimmed = trim u; lowerUrl = toLowerCase trimmed in
                if list_ex (\<lambda>scheme. startsWith lowerUrl scheme) dangerousSchemes then str ''#''
                else if \<not> matchesUrlPattern trimmed then str ''#''
                else trimmed))"

text \<open>
  \<open>maxLength\<close> is a \<open>number\<close>: not a number, an infinity, or a finite value (every finite
  double is a rational). \<open>text.length <= maxLength\<close> is false for NaN, and
  \<open>substring(0, maxLength)\<close> takes NaN and every negative bound as 0, drops the fraction
  of the bound and stops at the end of the text.
\<close>

datatype js_number = NaN | NegInfinity | PosInfinity | Finite rat

fun lengthLe :: "nat \<Rightarrow> js_number \<Rightarrow> bool" where
  "lengthLe n NaN = False"
| "lengthLe n NegInfinity = False"
| "lengthLe n PosInfinity = True"
| "lengthLe n (Finite q) = (of_nat n \<le> q)"

fun substring0 :: "jstring \<Rightarrow> js_number \<Rightarrow> jstring" where
  "substring0 s NaN = []"
| "substring0 s NegInfinity = []"
| "substring0 s PosInfinity = s"
| "substring0 s (Finite q) = take (nat \<lfloor>q\<rfloor>) s"

definition truncateText :: "js_arg \<Rightarrow> js_number \<Rightarrow> jstring" where
  "truncateText text maxLength =
     (case text of
        NotAString \<Rightarrow> []
      | Str t \<Rightarrow>
          if t = [] then []
          else if lengthLe (length t) maxLength then t
          else substring0 t maxLength @ str ''...'')"

section \<open>Aggregation of local incidents (lib/local-intelligence.ts)\<close>

text \<open>
  An article of \<open>/api/lake-expo-news\<close> and an announcement of
  \<open>/api/city-announcements\<close> have the same five string fields.
\<close>

record Article =
  art_id :: jstring
  art_title :: jstring
  art_summary :: jstring
  art_url :: jstring
  art_publishedAt :: jstring

text \<open>
  \<open>LocalIncident\<close>. A \<open>number\<close> is a double; coordinates are modelled as the rationals
  that the decimal literals and the arithmetic of the source denote, without the
  rounding of doubles.
\<close>

record LocalIncident =
  inc_id :: jstring
  inc_title :: jstring
  inc_type :: IncidentCategory
  inc_severity :: IncidentSeverity
  inc_source :: jstring
  inc_sourceUrl :: "jstring option"
  inc_timestamp :: jstring
  inc_lat :: "rat option"
  inc_lng :: "rat option"
  inc_summary :: "jstring option"

text \<open>
  \<open>new Date(s).getTime()\<close> for a string \<open>s\<close>: the time value in milliseconds, or NaN
  (\<open>None\<close>) when the engine cannot parse \<open>s\<close>, which is then the Invalid Date. The
  constructor does not throw for a string, so the \<open>catch\<close> arm behind the date check
  of the source is never entered and has no counterpart here. Which strings an engine
  parses is its own business beyond the ISO format: the parser is a parameter, of type
  \<open>date_parser\<close>.
\<close>

type_synonym date_parser = "jstring \<Rightarrow> int option"

definition retentionMs :: int where
  "retentionMs = 30 * 24 * 60 * 60 * 1000"

text \<open>
  The test that skips an item, \<open>isNaN(d.getTime()) || d < new Date(Date.now() - 30 days)\<close>,
  with \<open>now\<close> the reading of \<open>Date.now()\<close> when the item is tested.
\<close>

definition skipByDate :: "int \<Rightarrow> int option \<Rightarrow> bool" where
  "skipByDate now d = (case d of None \<Rightarrow> True | Some t \<Rightarrow> t < now - retentionMs)"

text \<open>
  The identifier hash, \<open>id.split('').reduce((acc, char) => acc + char.charCodeAt(0), 0)\<close>,
  and the two offsets. The sum and its product with 13 are whole numbers far below
  \<open>2^53\<close> for every string an engine can hold, so \<open>%\<close> is the remainder of integers.
\<close>

definition idHash :: "jstring \<Rightarrow> int" where
  "idHash ident = foldl (\<lambda>acc ch. acc + int ch) 0 ident"

definition spread :: rat where
  "spread = 0.25"

definition latOffset :: "int \<Rightarrow> rat" where
  "latOffset hash = of_int ((hash mod 200) - 100) / 400 * spread"

definition lngOffset :: "int \<Rightarrow> rat" where
  "lngOffset hash = of_int (((hash * 13) mod 200) - 100) / 400 * spread"

text \<open>The place names tried, in order, each with its coordinate; then the fallback.\<close>

definition locate :: "jstring \<Rightarrow> jstring \<Rightarrow> rat \<times> rat" where
  "locate text ident =
     (if str_includes text (str ''camdenton'') then (38.20, -92.75)
      else if str_includes text (str ''eldon'') then (38.35, -92.58)
      else if str_includes text (str ''osage beach'') \<or> str_includes text (str ''osage'')
        then (38.13, -92.65)
      else if str_includes text (str ''sunrise beach'') then (38.18, -92.78)
      else if str_includes text (str ''lake ozark'') \<or> str_includes text (str ''bagnell'')
        then (38.20, -92.63)
      else if str_includes text (str ''versailles'') then (38.43, -92.84)
      else if str_includes text (str ''linn creek'') then (38.03, -92.70)
      else if str_includes text (str ''gravois mills'') then (38.20, -92.83)
      else if str_includes text (str ''laurie'') then (38.20, -92.83)
      else if str_includes text (str ''four seasons'') then (38.20, -92.70)
      else if str_includes text (str ''miller county'') \<or> str_includes text (str ''miller'')
        then (38.20, -92.60)
      else if str_includes text (str ''camden county'') \<or> str_includes text (str ''camden'')
        then (38.15, -92.75)
      else if str_includes text (str ''morgan county'') \<or> str_includes text (str ''morgan'')
        then (38.43, -92.84)
      else if str_includes text (str ''highway 54'') \<or> str_includes text (str ''hwy 54'')
          \<or> str_includes text (str ''hwy54'')
        then (38.20, -92.75)
      else if str_includes text (str ''highway 5'') \<or> str_includes text (str ''hwy 5'')
          \<or> str_includes text (str ''hwy5'')
        then (38.15, -92.70)
      else (let hash = idHash ident in (38.15 + latOffset hash, -92.75 + lngOffset hash)))"


text \<open>The incident pushed for a Lake Expo article that passed the date test.\<close>

definition lakeExpoIncident :: "Article \<Rightarrow> LocalIncident" where
  "lakeExpoIncident article =
     (let text = toLowerCase (art_title article @ [32] @ art_summary article);
          ty = normalizeIncidentType [] (art_title article) (Some (art_summary article));
          severity = determineIncidentSeverity ty (art_title article) (Some (art_summary article));
          (lat, lng) = locate text (art_id article)
      in \<lparr>inc_id = art_id article, inc_title = art_title article, inc_type = ty,
          inc_severity = severity, inc_source = str ''Lake Expo'',
          inc_sourceUrl = Some (art_url article), inc_timestamp = art_publishedAt article,
          inc_lat = Some lat, inc_lng = Some lng, inc_summary = Some (art_summary article)\<rparr>)"

text \<open>The incident pushed for a city announcement that passed the date test.\<close>

definition cityIncident :: "Article \<Rightarrow> LocalIncident" where
  "cityIncident announcement =
     (let ty = normalizeIncidentType [] (art_title announcement) (Some (art_summary announcement));
          severity = determineIncidentSeverity ty (art_title announcement)
                       (Some (art_summary announcement))
      in \<lparr>inc_id = art_id announcement, inc_title = art_title announcement, inc_type = ty,
          inc_severity = severity, inc_source = str ''City of Lake Ozark'',
          inc_sourceUrl = Some (art_url announcement),
          inc_timestamp = art_publishedAt announcement,
          inc_lat = Some 38.20, inc_lng = Some (-92.63),
          inc_summary = Some (art_summary announcement)\<rparr>)"

text \<open>
  The two \<open>for\<close> loops. \<open>Date.now()\<close> is read anew for each item: \<open>clock k\<close> is its
  reading when the item at position \<open>k\<close> of the list is tested.
\<close>

fun collectIncidents ::
  "(Article \<Rightarrow> LocalIncident) \<Rightarrow> date_parser \<Rightarrow> (nat \<Rightarrow> int) \<Rightarrow> nat \<Rightarrow> Article list
     \<Rightarrow> LocalIncident list" where
  "collectIncidents mk parse clock k [] = []"
| "collectIncidents mk parse clock k (a # as) =
     (if skipByDate (clock k) (parse (art_publishedAt a))
      then collectIncidents mk parse clock (Suc k) as
      else mk a # collectIncidents mk parse clock (Suc k) as)"

text \<open>
  What \<open>Promise.allSettled\<close> reports for one \<open>fetch\<close>: rejected, or a response with its
  \<open>ok\<close> flag and what \<open>json()\<close> gives: a failure (no JSON, or a value whose field cannot
  be read), a value without an array in the field, or the array of items.
\<close>

datatype body = BodyThrows | BodyWithoutArray | BodyItems "Article list"

datatype fetched = Rejected | Response bool body

datatype js_error = Thrown

definition sourceIncidents ::
  "(Article \<Rightarrow> LocalIncident) \<Rightarrow> date_parser \<Rightarrow> (nat \<Rightarrow> int) \<Rightarrow> fetched
     \<Rightarrow> js_error + LocalIncident list" where
  "sourceIncidents mk parse clock r =
     (case r of
        Rejected \<Rightarrow> Inr []
      | Response ok b \<Rightarrow>
          if \<not> ok then Inr []
          else (case b of
                  BodyThrows \<Rightarrow> Inl Thrown
                | BodyWithoutArray \<Rightarrow> Inr []
                | BodyItems items \<Rightarrow> Inr (collectIncidents mk parse clock 0 items)))"

text \<open>
  The comparator of the final sort is \<open>new Date(b.timestamp).getTime() -
  new Date(a.timestamp).getTime()\<close>, and \<open>Array.prototype.sort\<close> is stable: the result is
  the stable sort by descending time value. Every incident in the list passed the date
  test, so its time value is a number; \<open>timeValue\<close> has 0 for the NaN that does not
  occur.
\<close>

definition timeValue :: "date_parser \<Rightarrow> LocalIncident \<Rightarrow> int" where
  "timeValue parse i = (case parse (inc_timestamp i) of None \<Rightarrow> 0 | Some t \<Rightarrow> t)"

definition sortNewestFirst :: "date_parser \<Rightarrow> LocalIncident list \<Rightarrow> LocalIncident list" where
  "sortNewestFirst parse incidents = sort_key (\<lambda>i. - timeValue parse i) incidents"

text \<open>
  \<open>fetchLocalIncidents\<close>, given what the two fetches settled to. The outer \<open>catch\<close>
  turns anything thrown into the empty list.
\<close>

definition fetchLocalIncidents ::
  "date_parser \<Rightarrow> (nat \<Rightarrow> int) \<Rightarrow> (nat \<Rightarrow> int) \<Rightarrow> fetched \<Rightarrow> fetched \<Rightarrow> LocalIncident list" where
  "fetchLocalIncidents parse clockA clockC lakeExpoResponse cityResponse =
     (case sourceIncidents lakeExpoIncident parse clockA lakeExpoResponse of
        Inl e \<Rightarrow> []
      | Inr fromLakeExpo \<Rightarrow>
          (case sourceIncidents cityIncident parse clockC cityResponse of
             Inl e \<Rightarrow> []
           | Inr fromCity \<Rightarrow> sortNewestFirst parse (fromLakeExpo @ fromCity)))"




section \<open>Client display state (components/Map.tsx)\<close>

text \<open>
  The six state variables behind the three detail panels, and the timers that the close
  handlers start: each pending timer has the milliseconds left and the selection it
  clears. The handlers do not look into a location or an incident, so their types are
  parameters.
\<close>

datatype selection = LocationSel | IncidentSel | LocalIncidentSel

record ('l, 't, 'i) map_state =
  selectedLocation :: "'l option"
  isPanelOpen :: bool
  selectedIncident :: "'t option"
  isIncidentPanelOpen :: bool
  selectedLocalIncident :: "'i option"
  isLocalIncidentPanelOpen :: bool
  pendingTimers :: "(nat \<times> selection) list"

definition initialState :: "('l, 't, 'i) map_state" where
  "initialState =
     \<lparr>selectedLocation = None, isPanelOpen = False, selectedIncident = None,
      isIncidentPanelOpen = False, selectedLocalIncident = None,
      isLocalIncidentPanelOpen = False, pendingTimers = []\<rparr>"

definition handleMarkerClick :: "'l \<Rightarrow> ('l, 't, 'i) map_state \<Rightarrow> ('l, 't, 'i) map_state" where
  "handleMarkerClick location s = s\<lparr>selectedLocation := Some location, isPanelOpen := True\<rparr>"

definition handleClosePanel :: "('l, 't, 'i) map_state \<Rightarrow> ('l, 't, 'i) map_state" where
  "handleClosePanel s =
     s\<lparr>isPanelOpen := False, pendingTimers := pendingTimers s @ [(300, LocationSel)]\<rparr>"

definition handleIncidentClick :: "'t \<Rightarrow> ('l, 't, 'i) map_state \<Rightarrow> ('l, 't, 'i) map_state" where
  "handleIncidentClick incident s =
     (let s1 = s\<lparr>selectedIncident := Some incident, isIncidentPanelOpen := True\<rparr>
      in if isPanelOpen s then s1\<lparr>isPanelOpen := False\<rparr> else s1)"

definition handleCloseIncidentPanel :: "('l, 't, 'i) map_state \<Rightarrow> ('l, 't, 'i) map_state" where
  "handleCloseIncidentPanel s =
     s\<lparr>isIncidentPanelOpen := False, pendingTimers := pendingTimers s @ [(300, IncidentSel)]\<rparr>"

definition handleLocalIncidentClick :: "'i \<Rightarrow> ('l, 't, 'i) map_state \<Rightarrow> ('l, 't, 'i) map_state" where
  "handleLocalIncidentClick incident s =
     (let s1 = s\<lparr>selectedLocalIncident := Some incident, isLocalIncidentPanelOpen := True\<rparr>;
          s2 = (if isPanelOpen s then s1\<lparr>isPanelOpen := False\<rparr> else s1)
      in if isIncidentPanelOpen s then s2\<lparr>isIncidentPanelOpen := False\<rparr> else s2)"

definition handleCloseLocalIncidentPanel :: "('l, 't, 'i) map_state \<Rightarrow> ('l, 't, 'i) map_state" where
  "handleCloseLocalIncidentPanel s =
     s\<lparr>isLocalIncidentPanelOpen := False,
       pendingTimers := pendingTimers s @ [(300, LocalIncidentSel)]\<rparr>"

text \<open>A timer that runs out clears its selection; \<open>elapse d\<close> lets \<open>d\<close> milliseconds pass.\<close>

fun clearSelection :: "selection \<Rightarrow> ('l, 't, 'i) map_state \<Rightarrow> ('l, 't, 'i) map_state" where
  "clearSelection LocationSel s = s\<lparr>selectedLocation := None\<rparr>"
| "clearSelection IncidentSel s = s\<lparr>selectedIncident := None\<rparr>"
| "clearSelection LocalIncidentSel s = s\<lparr>selectedLocalIncident := None\<rparr>"

definition elapse :: "nat \<Rightarrow> ('l, 't, 'i) map_state \<Rightarrow> ('l, 't, 'i) map_state" where
  "elapse d s =
     (let due = filter (\<lambda>(left, sel). left \<le> d) (pendingTimers s);
          waiting = filter (\<lambda>(left, sel). \<not> left \<le> d) (pendingTimers s);
          s1 = foldl (\<lambda>st (left, sel). clearSelection sel st) s due
      in s1\<lparr>pendingTimers := map (\<lambda>(left, sel). (left - d, sel)) waiting\<rparr>)"

definition openPanels :: "('l, 't, 'i) map_state \<Rightarrow> nat" where
  "openPanels s =
     length (filter (\<lambda>b. b) [isPanelOpen s, isIncidentPanelOpen s, isLocalIncidentPanelOpen s])"

text \<open>The location-type filter: \<open>activeTypes\<close>, its initial value and \<open>toggleTypeFilter\<close>.\<close>

datatype LocationType = Restaurant | Marina | Bar

record Location =
  loc_id :: jstring
  loc_name :: jstring
  loc_type :: LocationType
  loc_lat :: rat
  loc_lng :: rat
  loc_camEmbedUrl :: "jstring option"
  loc_isOpen :: "bool option"





section \<open>Facts about strings\<close>






lemma trimEnd_idem: "trimEnd (trimEnd s) = trimEnd s"
  by (simp add: trimEnd_def dropWhile_idem)

lemma trimEnd_decomp: "s = trimEnd s @ rev (takeWhile isWhiteSpace (rev s))"
proof -
  have "rev (takeWhile isWhiteSpace (rev s) @ dropWhile isWhiteSpace (rev s)) = s"
    by (simp only: takeWhile_dropWhile_id rev_rev_ident)
  then have "rev (dropWhile isWhiteSpace (rev s)) @ rev (takeWhile isWhiteSpace (rev s)) = s"
    by (simp only: rev_append)
  then show ?thesis by (simp only: trimEnd_def)
qed

lemma trimEnd_head:
  assumes "s \<noteq> []" and "\<not> isWhiteSpace (hd s)"
  shows "trimEnd s \<noteq> [] \<and> hd (trimEnd s) = hd s"
proof -
  let ?w = "rev (takeWhile isWhiteSpace (rev s))"
  have d: "s = trimEnd s @ ?w" by (rule trimEnd_decomp)
  have w: "\<forall>x \<in> set ?w. isWhiteSpace x"
    by (auto dest: set_takeWhileD)
  have ne: "trimEnd s \<noteq> []"
  proof
    assume "trimEnd s = []"
    with d have "s = ?w" by simp
    with w have "\<forall>x \<in> set s. isWhiteSpace x" by metis
    with assms show False by (cases s) auto
  qed
  then have "hd (trimEnd s @ ?w) = hd (trimEnd s)" by simp
  with d have "hd s = hd (trimEnd s)" by simp
  with ne show ?thesis by simp
qed

lemma trimStart_trim: "trimStart (trim s) = trim s"
proof (cases "trimStart s")
  case Nil
  then have "trim s = []" by (simp add: trim_def trimEnd_def)
  then show ?thesis by (simp add: trimStart_def)
next
  case (Cons c cs)
  then have nw: "\<not> isWhiteSpace (hd (trimStart s))" and ne: "trimStart s \<noteq> []"
    using hd_dropWhile [of isWhiteSpace s] by (auto simp: trimStart_def)
  from trimEnd_head [OF ne nw] nw
  have "trimEnd (trimStart s) \<noteq> []" and "\<not> isWhiteSpace (hd (trimEnd (trimStart s)))"
    by auto
  then show ?thesis
    by (cases "trimEnd (trimStart s)") (auto simp: trim_def trimStart_def)
qed

lemma trim_idem: "trim (trim s) = trim s"
proof -
  have "trim (trim s) = trimEnd (trimStart (trim s))" by (simp add: trim_def)
  also have "\<dots> = trimEnd (trim s)" by (simp add: trimStart_trim)
  also have "\<dots> = trim s" by (simp add: trim_def trimEnd_idem)
  finally show ?thesis .
qed

lemma matchesUrlPattern_nonempty: "matchesUrlPattern s \<Longrightarrow> s \<noteq> []"
  by (auto simp: matchesUrlPattern_def startsWithIgnoreCase_def str_def)

lemma escapeChar_no_angle: "60 \<notin> set (escapeChar c) \<and> 62 \<notin> set (escapeChar c)"
  by (simp add: escapeChar_def str_def)

lemma escapeHtml_no_angle: "60 \<notin> set (escapeHtml t) \<and> 62 \<notin> set (escapeHtml t)"
  by (induction t) (simp_all add: escapeHtml_def escapeChar_no_angle)

lemma collapseWhitespace_subset: "set (collapseWhitespace s) \<subseteq> insert 32 (set s)"
proof (induction s rule: collapseWhitespace.induct)
  case 1
  show ?case by simp
next
  case (2 c cs)
  show ?case
  proof (cases "isWhiteSpace c")
    case True
    with 2 have "set (collapseWhitespace (dropWhile isWhiteSpace cs))
        \<subseteq> insert 32 (set (dropWhile isWhiteSpace cs))" by simp
    moreover have "set (dropWhile isWhiteSpace cs) \<subseteq> set cs"
      by (auto dest: set_dropWhileD)
    ultimately show ?thesis using True by auto
  next
    case False
    with 2 show ?thesis by auto
  qed
qed

lemma trim_subset: "set (trim s) \<subseteq> set s"
proof
  fix x assume "x \<in> set (trim s)"
  then have "x \<in> set (dropWhile isWhiteSpace (rev (dropWhile isWhiteSpace s)))"
    by (simp add: trim_def trimEnd_def trimStart_def)
  then have "x \<in> set (rev (dropWhile isWhiteSpace s))"
    by (rule set_dropWhileD)
  then have "x \<in> set (dropWhile isWhiteSpace s)" by simp
  then show "x \<in> set s" by (rule set_dropWhileD)
qed

lemmas url_eval = sanitizeUrl_def str_def trim_def trimStart_def trimEnd_def isWhiteSpace_def
  toLowerCase_def lowerUnit_def dangerousSchemes_def matchesUrlPattern_def
  startsWithIgnoreCase_def upperAscii_def Let_def

lemmas html_eval = sanitizeHtml_def decodeHtmlEntities_def entityMap_def matchEntity_def
  escapeHtml_def escapeChar_def trim_def trimStart_def trimEnd_def isWhiteSpace_def str_def
  Let_def isDigit_def isHexDigit_def parseInt_def digitValue_def fromCharCode_def


section \<open>The classifier: priority order and severity table\<close>








section \<open>The sanitizer\<close>

lemma sanitizeUrl_hash: "sanitizeUrl (Str (str ''#'')) = str ''#''"
  by (simp add: url_eval)

lemma sanitizeUrl_cases:
  "sanitizeUrl u = [] \<or> sanitizeUrl u = str ''#''
   \<or> (\<exists>s. u = Str s \<and> s \<noteq> [] \<and> sanitizeUrl u = trim s \<and> matchesUrlPattern (trim s)
        \<and> \<not> list_ex (\<lambda>scheme. startsWith (toLowerCase (trim s)) scheme) dangerousSchemes)"
  by (cases u) (auto simp: sanitizeUrl_def Let_def)

lemma sanitizeUrl_accepted:
  assumes "matchesUrlPattern t"
    and "\<not> list_ex (\<lambda>scheme. startsWith (toLowerCase t) scheme) dangerousSchemes"
    and "trim t = t"
  shows "sanitizeUrl (Str t) = t"
  using assms matchesUrlPattern_nonempty [OF assms(1)]
  by (simp add: sanitizeUrl_def Let_def)

lemma sanitizeUrl_twice: "sanitizeUrl (Str (sanitizeUrl u)) = sanitizeUrl u"
  using sanitizeUrl_cases [of u]
  by (auto simp: sanitizeUrl_hash sanitizeUrl_def [of "Str []"] trim_idem
      intro: sanitizeUrl_accepted)

text \<open>
  C6. \<open>sanitizeUrl\<close> is idempotent: applied to its own result it returns that result.
  Its results are the empty string (for the empty string and for a value that is not a
  string), the placeholder \<open>#\<close> (for a string that, trimmed, begins with a dangerous
  scheme in any case of letters, or does not begin with \<open>http://\<close>, \<open>https://\<close> or
  \<open>/\<close>), both of which it maps to themselves, and otherwise the trimmed argument,
  unchanged.
\<close>

theorem sanitizeUrl_idempotent:
  "sanitizeUrl (Str (sanitizeUrl u)) = sanitizeUrl u
   \<and> sanitizeUrl NotAString = [] \<and> sanitizeUrl (Str []) = []
   \<and> sanitizeUrl (Str (str ''#'')) = str ''#''
   \<and> (s \<noteq> [] \<and> list_ex (\<lambda>scheme. startsWith (toLowerCase (trim s)) scheme) dangerousSchemes
        \<longrightarrow> sanitizeUrl (Str s) = str ''#'')
   \<and> (s \<noteq> [] \<and> \<not> matchesUrlPattern (trim s) \<longrightarrow> sanitizeUrl (Str s) = str ''#'')
   \<and> (s \<noteq> [] \<and> matchesUrlPattern (trim s)
        \<and> \<not> list_ex (\<lambda>scheme. startsWith (toLowerCase (trim s)) scheme) dangerousSchemes
        \<longrightarrow> sanitizeUrl (Str s) = trim s)"
proof -
  have "sanitizeUrl NotAString = []" and "sanitizeUrl (Str []) = []"
    by (simp_all add: sanitizeUrl_def)
  moreover have "s \<noteq> [] \<and>
      list_ex (\<lambda>scheme. startsWith (toLowerCase (trim s)) scheme) dangerousSchemes
        \<longrightarrow> sanitizeUrl (Str s) = str ''#''"
    by (simp add: sanitizeUrl_def Let_def)
  moreover have "s \<noteq> [] \<and> \<not> matchesUrlPattern (trim s) \<longrightarrow> sanitizeUrl (Str s) = str ''#''"
    by (simp add: sanitizeUrl_def Let_def)
  moreover have "s \<noteq> [] \<and> matchesUrlPattern (trim s)
        \<and> \<not> list_ex (\<lambda>scheme. startsWith (toLowerCase (trim s)) scheme) dangerousSchemes
        \<longrightarrow> sanitizeUrl (Str s) = trim s"
    by (simp add: sanitizeUrl_def Let_def)
  ultimately show ?thesis
    using sanitizeUrl_twice sanitizeUrl_hash by blast
qed

theorem sanitizeUrl_idempotent_witness:
  "sanitizeUrl (Str (str ''  HTTPS://example.com/a b  '')) = str ''HTTPS://example.com/a b''
   \<and> sanitizeUrl (Str (sanitizeUrl (Str (str ''  HTTPS://example.com/a b  ''))))
       = str ''HTTPS://example.com/a b''
   \<and> list_ex (\<lambda>scheme. startsWith (toLowerCase (trim (str '' JavaScript:alert(1)''))) scheme)
        dangerousSchemes
   \<and> sanitizeUrl (Str (str '' JavaScript:alert(1)'')) = str ''#''
   \<and> sanitizeUrl (Str (sanitizeUrl (Str (str '' JavaScript:alert(1)'')))) = str ''#''"
proof -
  let ?good = "str ''  HTTPS://example.com/a b  ''" and ?bad = "str '' JavaScript:alert(1)''"
  have t: "trim ?good = str ''HTTPS://example.com/a b''"
    by (simp add: url_eval)
  have g1: "?good \<noteq> []" and g2: "matchesUrlPattern (trim ?good)"
    and g3: "\<not> list_ex (\<lambda>scheme. startsWith (toLowerCase (trim ?good)) scheme) dangerousSchemes"
    by (simp_all add: url_eval)
  have b1: "?bad \<noteq> []"
    and b2: "list_ex (\<lambda>scheme. startsWith (toLowerCase (trim ?bad)) scheme) dangerousSchemes"
    by (simp_all add: url_eval)
  from g1 g2 g3 sanitizeUrl_idempotent [where u = "Str ?good" and s = ?good]
  have a: "sanitizeUrl (Str ?good) = trim ?good"
    and a2: "sanitizeUrl (Str (sanitizeUrl (Str ?good))) = sanitizeUrl (Str ?good)"
    by blast+
  from b1 b2 sanitizeUrl_idempotent [where u = "Str ?bad" and s = ?bad]
  have b: "sanitizeUrl (Str ?bad) = str ''#''"
    and b3: "sanitizeUrl (Str (sanitizeUrl (Str ?bad))) = sanitizeUrl (Str ?bad)"
    by blast+
  from a a2 b b3 b2 t show ?thesis by simp
qed

text \<open>
  C7. The result of \<open>sanitizeHtml\<close> holds neither \<open><\<close> (60) nor \<open>>\<close> (62), for every
  argument: whatever stripping the tags and decoding the entities leave, \<open>escapeHtml\<close>
  replaces each of the two by an entity, and collapsing and trimming white space add
  nothing but spaces. On \<open><script>alert(1)</script>\<close> the result is \<open>alert(1)\<close>.
  The steps run in this order on a string that is not empty: tags are stripped, entities
  decoded, the five reserved characters escaped, white space collapsed and trimmed.
\<close>

theorem sanitizeHtml_no_angle_brackets:
  "60 \<notin> set (sanitizeHtml big h) \<and> 62 \<notin> set (sanitizeHtml big h)
   \<and> sanitizeHtml big (Str (str ''<script>alert(1)</script>'')) = str ''alert(1)''
   \<and> (t \<noteq> [] \<longrightarrow> sanitizeHtml big (Str t)
        = trim (collapseWhitespace (escapeHtml (decodeHtmlEntities big (stripTags t)))))"
proof -
  have order: "t \<noteq> [] \<longrightarrow> sanitizeHtml big (Str t)
        = trim (collapseWhitespace (escapeHtml (decodeHtmlEntities big (stripTags t))))"
    by (simp add: sanitizeHtml_def Let_def)
  have ex: "sanitizeHtml big (Str (str ''<script>alert(1)</script>'')) = str ''alert(1)''"
    by (simp add: html_eval)
  have "60 \<notin> set (sanitizeHtml big h) \<and> 62 \<notin> set (sanitizeHtml big h)"
  proof (cases h)
    case NotAString
    then show ?thesis by (simp add: sanitizeHtml_def)
  next
    case (Str t)
    let ?e = "escapeHtml (decodeHtmlEntities big (stripTags t))"
    have "set (trim (collapseWhitespace ?e)) \<subseteq> insert 32 (set ?e)"
      using trim_subset collapseWhitespace_subset by blast
    moreover have "60 \<notin> set ?e \<and> 62 \<notin> set ?e"
      by (rule escapeHtml_no_angle)
    ultimately have "60 \<notin> set (trim (collapseWhitespace ?e))
        \<and> 62 \<notin> set (trim (collapseWhitespace ?e))"
      by auto
    with Str show ?thesis by (simp add: sanitizeHtml_def Let_def)
  qed
  with ex order show ?thesis by blast
qed

theorem sanitizeHtml_no_angle_brackets_witness:
  "sanitizeHtml (\<lambda>n. 0)
       (Str (str ''  <b>a &lt; b</b> &#62;   &amp;lt; &#x3C;p&#x3e; <i  ''))
     = str ''a &lt; b &gt; &lt; &lt;p&gt; &lt;i''
   \<and> 60 \<notin> set (sanitizeHtml (\<lambda>n. 0)
       (Str (str ''  <b>a &lt; b</b> &#62;   &amp;lt; &#x3C;p&#x3e; <i  '')))
   \<and> 62 \<notin> set (sanitizeHtml (\<lambda>n. 0)
       (Str (str ''  <b>a &lt; b</b> &#62;   &amp;lt; &#x3C;p&#x3e; <i  '')))"
proof -
  have "sanitizeHtml (\<lambda>n. 0)
       (Str (str ''  <b>a &lt; b</b> &#62;   &amp;lt; &#x3C;p&#x3e; <i  ''))
     = str ''a &lt; b &gt; &lt; &lt;p&gt; &lt;i''"
    by (simp add: html_eval)
  with sanitizeHtml_no_angle_brackets [of "\<lambda>n. 0"
      "Str (str ''  <b>a &lt; b</b> &#62;   &amp;lt; &#x3C;p&#x3e; <i  '')" "str ''a''"]
  show ?thesis by simp
qed

text \<open>
  C8, as the code has it. \<open>truncateText\<close> returns the empty string for the empty string
  and for a value that is not a string, and the text itself when its length is at most
  the bound. A longer text is cut to the bound and the three-character marker \<open>...\<close> is
  put behind the cut: for a whole bound \<open>k\<close> below the length of the text the result is
  the first \<open>k\<close> code units followed by the marker, \<open>k + 3\<close> code units in all.
\<close>

theorem truncateText_cut_then_marker:
  "truncateText NotAString n = [] \<and> truncateText (Str []) n = []
   \<and> (lengthLe (length t) n \<longrightarrow> truncateText (Str t) n = t)
   \<and> (k < length t \<longrightarrow>
        truncateText (Str t) (Finite (of_nat k)) = take k t @ str ''...''
        \<and> length (truncateText (Str t) (Finite (of_nat k))) = k + 3)"
proof -
  have a: "truncateText NotAString n = [] \<and> truncateText (Str []) n = []"
    by (simp add: truncateText_def)
  have b: "lengthLe (length t) n \<Longrightarrow> truncateText (Str t) n = t"
    by (simp add: truncateText_def)
  have c: "truncateText (Str t) (Finite (of_nat k)) = take k t @ str ''...''" if "k < length t"
    using that by (auto simp: truncateText_def)
  have d: "length (truncateText (Str t) (Finite (of_nat k))) = k + 3" if "k < length t"
    using that by (simp add: c str_def)
  from a b c d show ?thesis by blast
qed

theorem truncateText_cut_then_marker_witness:
  "lengthLe (length (str ''abc'')) (Finite 3) \<and> truncateText (Str (str ''abc'')) (Finite 3) = str ''abc''
   \<and> (3::nat) < length (str ''abcdef'')
   \<and> truncateText (Str (str ''abcdef'')) (Finite (of_nat 3)) = str ''abc...''
   \<and> length (truncateText (Str (str ''abcdef'')) (Finite (of_nat 3))) = 6"
proof -
  have h1: "lengthLe (length (str ''abc'')) (Finite 3)" by (simp add: str_def)
  have h2: "(3::nat) < length (str ''abcdef'')" by (simp add: str_def)
  have e: "take 3 (str ''abcdef'') @ str ''...'' = str ''abc...''" by (simp add: str_def)
  from h1 h2 e
    truncateText_cut_then_marker [of "Finite 3" "str ''abc''" 0]
    truncateText_cut_then_marker [of "Finite 3" "str ''abcdef''" 3]
  show ?thesis by (simp add: str_def)
qed

text \<open>
  The result of a truncation is longer than the bound: \<open>abcdef\<close> cut at 3 is the six
  code units \<open>abc...\<close>.
\<close>

theorem truncateText_exceeds_bound:
  "truncateText (Str (str ''abcdef'')) (Finite 3) = str ''abc...''
   \<and> \<not> length (truncateText (Str (str ''abcdef'')) (Finite 3)) \<le> 3"
  by (simp add: truncateText_def str_def)

section \<open>The client display state\<close>

lemma close_clears_after_delay:
  "\<not> isPanelOpen (handleClosePanel s)
   \<and> selectedLocation (handleClosePanel s) = selectedLocation s
   \<and> (pendingTimers s = [] \<longrightarrow>
        selectedLocation (elapse 299 (handleClosePanel s)) = selectedLocation s
        \<and> selectedLocation (elapse 300 (handleClosePanel s)) = None)"
  by (simp add: handleClosePanel_def elapse_def Let_def)

lemma handleLocalIncidentClick_one_panel:
  "openPanels (handleLocalIncidentClick i s) = 1"
  by (simp add: handleLocalIncidentClick_def openPanels_def Let_def)

text \<open>
  C9, where the code departs from it. \<open>handleLocalIncidentClick\<close> closes the two other
  panels, but \<open>handleMarkerClick\<close> closes none and \<open>handleIncidentClick\<close> only the
  location panel: from the initial state, opening the local-incident panel and then a
  location (or a traffic incident), or opening a traffic incident and then a location,
  leaves two panels open.
\<close>

theorem two_panels_open_after_clicks:
  "isPanelOpen (handleMarkerClick (1::nat)
      (handleLocalIncidentClick (2::nat) (initialState :: (nat, nat, nat) map_state)))
   \<and> isLocalIncidentPanelOpen (handleMarkerClick (1::nat)
      (handleLocalIncidentClick (2::nat) (initialState :: (nat, nat, nat) map_state)))
   \<and> openPanels (handleMarkerClick (1::nat)
      (handleLocalIncidentClick (2::nat) (initialState :: (nat, nat, nat) map_state))) = 2
   \<and> openPanels (handleIncidentClick (3::nat)
      (handleLocalIncidentClick (2::nat) (initialState :: (nat, nat, nat) map_state))) = 2
   \<and> openPanels (handleMarkerClick (1::nat)
      (handleIncidentClick (3::nat) (initialState :: (nat, nat, nat) map_state))) = 2"
  by (simp add: handleMarkerClick_def handleLocalIncidentClick_def handleIncidentClick_def
      initialState_def openPanels_def Let_def)






section \<open>The aggregation\<close>




























text \<open>
  A response that is OK but whose body cannot be read is another matter: what is thrown
  reaches the outer \<open>catch\<close>, and the items of the other source are lost with it.
\<close>

lemma unreadable_body_empties_batch:
  "fetchLocalIncidents parse clockA clockC (Response True BodyThrows) city = []
   \<and> fetchLocalIncidents parse clockA clockC lake (Response True BodyThrows) = []"
  by (simp add: fetchLocalIncidents_def sourceIncidents_def split: sum.splits)




end
